theory Spec2Isabelle
  imports Complex_Main "HOL-Library.Sublist"
begin

section \<open>Capture flow controller (the App component)\<close>

text \<open>
  The repository holds two variants of the App component: \<^verbatim>\<open>src/src/App.tsx\<close> (finger
  selection, camera, loading, result) and \<^verbatim>\<open>src/unnamed/part_000\<close>, its superset with a
  method-selection view and an upload path. The superset is modelled in full; the three
  copies of the submission code (\<^verbatim>\<open>handleUploadSubmit\<close> and \<^verbatim>\<open>handleCapture\<close> of the
  superset, \<^verbatim>\<open>handleCapture\<close> of App.tsx) differ only in the image they append and in the
  view they return to, so they share one definition here.

  React state is a record; a handler is a function from the state its render closed over
  to the state its setter calls leave, together with the requests it sent. Everything the
  browser and the server decide (configuration, the outcome of a fetch, the body of a
  response) is an explicit argument.
\<close>

subsection \<open>Data model\<close>

text \<open>\<^verbatim>\<open>type FingerType = 'index' | 'middle' | 'ring' | 'pinky' | 'thumb'\<close>; \<open>finger_str\<close> is
  the string each literal denotes, which is what \<^verbatim>\<open>formData.append\<close> stores.\<close>

datatype FingerType = Index | Middle | Ring | Pinky | Thumb

fun finger_str :: "FingerType \<Rightarrow> string" where
  "finger_str Index = ''index''"
| "finger_str Middle = ''middle''"
| "finger_str Ring = ''ring''"
| "finger_str Pinky = ''pinky''"
| "finger_str Thumb = ''thumb''"

definition fingerOptions :: "FingerType list" where
  "fingerOptions = [Index, Middle, Ring, Pinky, Thumb]"

text \<open>\<^verbatim>\<open>type View = 'method-selection' | 'selection' | 'camera' | 'upload' | 'loading' | 'result'\<close>\<close>

datatype View = MethodSelection | Selection | Camera | Upload | Loading | Result

text \<open>A browser \<^verbatim>\<open>File\<close>: its name, its MIME type (\<^verbatim>\<open>file.type\<close>) and its bytes.\<close>

record File =
  fname :: string
  ftype :: string
  fdata :: string

text \<open>
  A value returned by \<^verbatim>\<open>response.json()\<close>. A number is kept as the text that
  \<^verbatim>\<open>String\<close> gives for it (no arithmetic is done on it); an object is the list of its own
  properties in the order of \<^verbatim>\<open>Object.entries\<close>.
\<close>

datatype json =
    JNull
  | JBool bool
  | JNum string
  | JStr string
  | JArr "json list"
  | JObj "(string \<times> json) list"

text \<open>A thrown value or a rejection: an \<^verbatim>\<open>Error\<close> with its message, or anything that
  is not an instance of \<^verbatim>\<open>Error\<close>.\<close>

datatype thrown = ErrorObj string | NonError

record app_state =
  currentView :: View
  selectedFinger :: FingerType
  capturedImage :: string
  selectedFile :: "File option"
  result :: json
  error :: string

text \<open>The initial values of the \<^verbatim>\<open>useState\<close> cells; \<^verbatim>\<open>null\<close> is \<open>JNull\<close> for the
  result and \<open>None\<close> for the file.\<close>

definition initial_state :: app_state where
  "initial_state =
     \<lparr>currentView = MethodSelection, selectedFinger = Index, capturedImage = '''',
      selectedFile = None, result = JNull, error = ''''\<rparr>"

text \<open>The multipart request: \<^verbatim>\<open>fetch(`${baseUrl}/finger/capture`, {method: 'POST', body: formData})\<close>
  with the two fields appended to \<^verbatim>\<open>formData\<close>.\<close>

record request =
  url :: string
  http_method :: string
  finger_type :: string
  original_image :: File

text \<open>A response: \<^verbatim>\<open>response.status\<close>, and what \<^verbatim>\<open>response.json()\<close> settles to
  (\<open>Inl\<close>: it rejects, the body is not JSON). \<^verbatim>\<open>response.ok\<close> is a status in 200..299.\<close>

record response =
  status :: nat
  body :: "thrown + json"

definition ok :: "response \<Rightarrow> bool" where
  "ok r \<longleftrightarrow> 200 \<le> status r \<and> status r \<le> 299"

datatype fetch_result = Rejects thrown | Resolves response

text \<open>
  The environment of a submission: \<^verbatim>\<open>import.meta.env.VITE_API_BASE_URL\<close> (\<open>None\<close> when
  undefined), the answer of the network to a request, and the outcome of
  \<^verbatim>\<open>fetch(`data:image/png;base64,${imageData}`).then(r => r.blob())\<close>, which decodes the
  captured image locally (\<open>Inr\<close>: the bytes of the blob).
\<close>

record env =
  baseUrl :: "string option"
  fetch :: "request \<Rightarrow> fetch_result"
  fetch_data_url :: "string \<Rightarrow> thrown + string"

subsection \<open>JavaScript string conversion\<close>

text \<open>
  \<^verbatim>\<open>String(value)\<close> and \<^verbatim>\<open>Array.prototype.join\<close> on parsed JSON. \<^verbatim>\<open>join\<close> renders
  \<^verbatim>\<open>null\<close> elements as the empty string; an array converts by \<^verbatim>\<open>join(',')\<close>; an object
  converts to \<^verbatim>\<open>[object Object]\<close>, unless it has an own property \<^verbatim>\<open>toString\<close>, which
  after \<^verbatim>\<open>JSON.parse\<close> is never callable, so that the conversion throws a TypeError.
  The wording of that error is the engine's (here V8's); only that it is not empty is used.
\<close>

definition type_error_message :: string where
  "type_error_message = ''Cannot convert object to primitive value''"

fun js_String :: "json \<Rightarrow> thrown + string"
  and js_join_elem :: "json \<Rightarrow> thrown + string"
  and js_join :: "string \<Rightarrow> json list \<Rightarrow> thrown + string"
where
  "js_String JNull = Inr ''null''"
| "js_String (JBool b) = Inr (if b then ''true'' else ''false'')"
| "js_String (JNum n) = Inr n"
| "js_String (JStr s) = Inr s"
| "js_String (JArr xs) = js_join '','' xs"
| "js_String (JObj kvs) =
     (if ''toString'' \<in> set (map fst kvs) then Inl (ErrorObj type_error_message)
      else Inr ''[object Object]'')"
| "js_join_elem v = (if v = JNull then Inr '''' else js_String v)"
| "js_join sep [] = Inr ''''"
| "js_join sep [v] = js_join_elem v"
| "js_join sep (v # w # vs) =
     (case js_join_elem v of
        Inl e \<Rightarrow> Inl e
      | Inr s \<Rightarrow> (case js_join sep (w # vs) of
                   Inl e \<Rightarrow> Inl e
                 | Inr t \<Rightarrow> Inr (s @ sep @ t)))"

text \<open>\<^verbatim>\<open>join\<close> on an array of strings.\<close>

fun join_strings :: "string \<Rightarrow> string list \<Rightarrow> string" where
  "join_strings sep [] = ''''"
| "join_strings sep [s] = s"
| "join_strings sep (s # t # ts) = s @ sep @ join_strings sep (t # ts)"

text \<open>\<^verbatim>\<open>typeof\<close> and truthiness of a parsed JSON value (the number zero prints as \<^verbatim>\<open>0\<close>).\<close>

fun typeof :: "json \<Rightarrow> string" where
  "typeof JNull = ''object''"
| "typeof (JBool b) = ''boolean''"
| "typeof (JNum n) = ''number''"
| "typeof (JStr s) = ''string''"
| "typeof (JArr xs) = ''object''"
| "typeof (JObj kvs) = ''object''"

fun truthy :: "json \<Rightarrow> bool" where
  "truthy JNull = False"
| "truthy (JBool b) = b"
| "truthy (JNum n) = (n \<noteq> ''0'')"
| "truthy (JStr s) = (s \<noteq> '''')"
| "truthy (JArr xs) = True"
| "truthy (JObj kvs) = True"

text \<open>The values of \<^verbatim>\<open>Object.entries(errorData)\<close>, in order. The callback never reads
  the key; an array has its elements as entries. The remaining cases are not reached:
  the call is guarded by \<^verbatim>\<open>typeof errorData === 'object'\<close>.\<close>

fun entry_values :: "json \<Rightarrow> json list" where
  "entry_values (JObj kvs) = map snd kvs"
| "entry_values (JArr xs) = xs"
| "entry_values v = []"

text \<open>The callback of \<^verbatim>\<open>.map(([key, value]) => ...)\<close>.\<close>

fun entry_message :: "json \<Rightarrow> thrown + string" where
  "entry_message (JArr xs) = js_join '', '' xs"
| "entry_message v = js_String v"

text \<open>\<^verbatim>\<open>.map\<close> calls the callback from left to right and stops at the first throw.\<close>

fun map_entries :: "json list \<Rightarrow> thrown + string list" where
  "map_entries [] = Inr []"
| "map_entries (v # vs) =
     (case entry_message v of
        Inl e \<Rightarrow> Inl e
      | Inr s \<Rightarrow> (case map_entries vs of Inl e \<Rightarrow> Inl e | Inr ss \<Rightarrow> Inr (s # ss)))"

text \<open>\<^verbatim>\<open>const errorMessages = Object.entries(errorData).map(...).join('. ')\<close>\<close>

definition errorMessages :: "json \<Rightarrow> thrown + string" where
  "errorMessages errorData =
     (case map_entries (entry_values errorData) of
        Inl e \<Rightarrow> Inl e
      | Inr ss \<Rightarrow> Inr (join_strings ''. '' ss))"

text \<open>\<^verbatim>\<open>err.message.includes('fetch')\<close>\<close>

definition includes_fetch :: "string \<Rightarrow> bool" where
  "includes_fetch m \<longleftrightarrow> sublist ''fetch'' m"

subsection \<open>The error message as the specification words it\<close>

text \<open>
  The specification describes the message of a structured failure body by a formula:
  array values joined with a comma and a space, other values stringified, entries joined
  with a full stop and a space. The definitions below write that formula down on their
  own, without the functions above, to be compared with \<open>errorMessages\<close>.
  \<open>sep_concat\<close> puts a separator between the strings of a list.
\<close>

fun sep_concat :: "string \<Rightarrow> string list \<Rightarrow> string" where
  "sep_concat sep [] = ''''"
| "sep_concat sep (x # xs) = x @ concat (map ((@) sep) xs)"

text \<open>A value stringified: the text of a string or a number, \<^verbatim>\<open>true\<close>, \<^verbatim>\<open>false\<close>,
  \<^verbatim>\<open>null\<close>, \<^verbatim>\<open>[object Object]\<close> for an object, and for an array its elements stringified
  and joined with a comma, a \<^verbatim>\<open>null\<close> element giving the empty string.\<close>

fun spec_string :: "json \<Rightarrow> string" where
  "spec_string JNull = ''null''"
| "spec_string (JBool b) = (if b then ''true'' else ''false'')"
| "spec_string (JNum n) = n"
| "spec_string (JStr s) = s"
| "spec_string (JArr xs) =
     sep_concat '','' (map (\<lambda>x. if x = JNull then '''' else spec_string x) xs)"
| "spec_string (JObj kvs) = ''[object Object]''"

text \<open>An element of an array that is joined.\<close>

definition spec_elem :: "json \<Rightarrow> string" where
  "spec_elem v = (if v = JNull then '''' else spec_string v)"

text \<open>The text of one entry, from its value.\<close>

definition spec_entry :: "json \<Rightarrow> string" where
  "spec_entry v =
     (case v of JArr xs \<Rightarrow> sep_concat '', '' (map spec_elem xs) | _ \<Rightarrow> spec_string v)"

text \<open>The values that can be stringified: all but an object with an own property
  \<^verbatim>\<open>toString\<close>, and an array that holds such an object at any depth.\<close>

fun plain :: "json \<Rightarrow> bool" where
  "plain (JObj kvs) = (''toString'' \<notin> set (map fst kvs))"
| "plain (JArr xs) = list_all plain xs"
| "plain v = True"

subsection \<open>Submission\<close>

text \<open>\<^verbatim>\<open>if (!baseUrl)\<close>: the setting is undefined or the empty string.\<close>

definition configured :: "env \<Rightarrow> bool" where
  "configured e \<longleftrightarrow> (case baseUrl e of None \<Rightarrow> False | Some b \<Rightarrow> b \<noteq> '''')"

text \<open>
  The branch \<^verbatim>\<open>if (!response.ok) { ... }\<close>: the error thrown for a response that is not
  ok. \<^verbatim>\<open>response.json().catch(() => null)\<close> turns a body that does not parse into
  \<^verbatim>\<open>null\<close>; \<^verbatim>\<open>errorMessages || 'Failed to process fingerprint'\<close> replaces an empty
  message. A TypeError raised by \<^verbatim>\<open>String(value)\<close> leaves the block in place of the
  \<^verbatim>\<open>throw\<close>.
\<close>

definition remote_error :: "response \<Rightarrow> thrown" where
  "remote_error r =
     (let errorData = (case body r of Inl e \<Rightarrow> JNull | Inr j \<Rightarrow> j) in
      if truthy errorData \<and> typeof errorData = ''object'' then
        (case errorMessages errorData of
           Inl e \<Rightarrow> e
         | Inr m \<Rightarrow> ErrorObj (if m = '''' then ''Failed to process fingerprint'' else m))
      else if 500 \<le> status r then ErrorObj ''Server error. Please try again later.''
      else ErrorObj ''Failed to process fingerprint. Please try again.'')"

definition capture_request :: "string \<Rightarrow> FingerType \<Rightarrow> File \<Rightarrow> request" where
  "capture_request b finger img =
     \<lparr>url = b @ ''/finger/capture'', http_method = ''POST'',
      finger_type = finger_str finger, original_image = img\<rparr>"

text \<open>
  The body of the \<^verbatim>\<open>try\<close> block from \<^verbatim>\<open>new FormData()\<close> on, the same text in the three
  handlers: \<open>Inr data\<close> when it reaches \<^verbatim>\<open>setResult(data)\<close>, \<open>Inl err\<close> when it throws,
  and the requests passed to \<^verbatim>\<open>fetch\<close>.
\<close>

definition post_capture :: "env \<Rightarrow> FingerType \<Rightarrow> File \<Rightarrow> (thrown + json) \<times> request list" where
  "post_capture e finger img =
     (case baseUrl e of
        None \<Rightarrow> (Inl (ErrorObj ''API base URL is not configured''), [])
      | Some b \<Rightarrow>
          if b = '''' then (Inl (ErrorObj ''API base URL is not configured''), [])
          else
            (case fetch e (capture_request b finger img) of
               Rejects err \<Rightarrow> (Inl err, [capture_request b finger img])
             | Resolves r \<Rightarrow>
                 (if \<not> ok r then Inl (remote_error r) else body r,
                  [capture_request b finger img])))"

text \<open>The \<^verbatim>\<open>catch (err)\<close> block: the message it stores.\<close>

definition catch_message :: "thrown \<Rightarrow> string" where
  "catch_message err =
     (case err of
        ErrorObj m \<Rightarrow>
          if includes_fetch m then ''Network error. Please check your connection.'' else m
      | NonError \<Rightarrow> ''An error occurred. Please try again.'')"

text \<open>The end of a submission: \<^verbatim>\<open>setResult(data); setCurrentView('result')\<close>, or the
  \<^verbatim>\<open>catch\<close> block, which returns to the view \<open>back\<close>.\<close>

definition settle :: "View \<Rightarrow> app_state \<Rightarrow> thrown + json \<Rightarrow> app_state" where
  "settle back s r =
     (case r of
        Inr data \<Rightarrow> s\<lparr>result := data, currentView := Result\<rparr>
      | Inl err \<Rightarrow> s\<lparr>error := catch_message err, currentView := back\<rparr>)"

text \<open>
  What a submit handler does: \<open>pending\<close> is the state written by the setter calls that
  precede the \<^verbatim>\<open>try\<close> block (\<open>None\<close> when the handler returns before them),
  \<open>final\<close> the state when the handler has finished, \<open>sent\<close> the requests made to the
  processing endpoint.
\<close>

record outcome =
  pending :: "app_state option"
  final :: app_state
  sent :: "request list"

subsection \<open>Handlers\<close>

definition handleSelectLiveCapture :: "app_state \<Rightarrow> app_state" where
  "handleSelectLiveCapture s = s\<lparr>currentView := Selection, error := ''''\<rparr>"

definition handleSelectUpload :: "app_state \<Rightarrow> app_state" where
  "handleSelectUpload s = s\<lparr>currentView := Upload, error := ''''\<rparr>"

definition handleProceedToCamera :: "app_state \<Rightarrow> app_state" where
  "handleProceedToCamera s = s\<lparr>currentView := Camera, error := ''''\<rparr>"

text \<open>\<^verbatim>\<open>onChange={(e) => setSelectedFinger(e.target.value as FingerType)}\<close>\<close>

definition setSelectedFinger :: "FingerType \<Rightarrow> app_state \<Rightarrow> app_state" where
  "setSelectedFinger f s = s\<lparr>selectedFinger := f\<rparr>"

text \<open>\<^verbatim>\<open>event.target.files?.[0]\<close>: \<open>None\<close> when \<^verbatim>\<open>files\<close> is null or empty.\<close>

definition first_file :: "File list option \<Rightarrow> File option" where
  "first_file files =
     (case files of None \<Rightarrow> None | Some fs \<Rightarrow> (case fs of [] \<Rightarrow> None | f # _ \<Rightarrow> Some f))"

definition is_image :: "File \<Rightarrow> bool" where
  "is_image f \<longleftrightarrow> prefix ''image/'' (ftype f)"

definition handleFileSelect :: "File list option \<Rightarrow> app_state \<Rightarrow> app_state" where
  "handleFileSelect files s =
     (case first_file files of
        Some f \<Rightarrow>
          if is_image f then s\<lparr>selectedFile := Some f, error := ''''\<rparr>
          else s\<lparr>error := ''Please select a valid image file''\<rparr>
      | None \<Rightarrow> s\<lparr>error := ''Please select a valid image file''\<rparr>)"

definition handleUploadSubmit :: "env \<Rightarrow> app_state \<Rightarrow> outcome" where
  "handleUploadSubmit e s =
     (case selectedFile s of
        None \<Rightarrow>
          \<lparr>pending = None, final = s\<lparr>error := ''Please select an image file''\<rparr>, sent = []\<rparr>
      | Some f \<Rightarrow>
          (let s1 = s\<lparr>currentView := Loading, error := ''''\<rparr>;
               r = post_capture e (selectedFinger s) f
           in \<lparr>pending = Some s1, final = settle Upload s1 (fst r), sent = snd r\<rparr>))"

text \<open>\<^verbatim>\<open>new File([blob], 'fingerprint.png', { type: 'image/png' })\<close>\<close>

definition png_file :: "string \<Rightarrow> File" where
  "png_file blob = \<lparr>fname = ''fingerprint.png'', ftype = ''image/png'', fdata = blob\<rparr>"

definition handleCapture :: "env \<Rightarrow> string \<Rightarrow> app_state \<Rightarrow> outcome" where
  "handleCapture e imageData s =
     (let s1 = s\<lparr>capturedImage := imageData, currentView := Loading, error := ''''\<rparr>;
          r = (case fetch_data_url e imageData of
                 Inl err \<Rightarrow> (Inl err, [])
               | Inr blob \<Rightarrow> post_capture e (selectedFinger s) (png_file blob))
      in \<lparr>pending = Some s1, final = settle Camera s1 (fst r), sent = snd r\<rparr>)"

definition handleRetake :: "app_state \<Rightarrow> app_state" where
  "handleRetake s =
     s\<lparr>result := JNull, capturedImage := '''', selectedFile := None, error := '''',
       currentView := MethodSelection\<rparr>"

text \<open>The three Back buttons: \<^verbatim>\<open>setCurrentView('method-selection')\<close> in the selection and
  upload views, \<^verbatim>\<open>setCurrentView('selection')\<close> in the camera view. The other views have
  none.\<close>

definition handleBack :: "app_state \<Rightarrow> app_state" where
  "handleBack s =
     (case currentView s of
        Selection \<Rightarrow> s\<lparr>currentView := MethodSelection\<rparr>
      | Upload \<Rightarrow> s\<lparr>currentView := MethodSelection\<rparr>
      | Camera \<Rightarrow> s\<lparr>currentView := Selection\<rparr>
      | _ \<Rightarrow> s)"

text \<open>The error box \<^verbatim>\<open>{error && (<div ...>{error}</div>)}\<close>, which only the camera and
  the upload view render.\<close>

definition shown_error :: "app_state \<Rightarrow> string option" where
  "shown_error s =
     (if (currentView s = Camera \<or> currentView s = Upload) \<and> error s \<noteq> '''' then Some (error s)
      else None)"

text \<open>\<^verbatim>\<open>handleRetake\<close> of App.tsx, the variant without method selection and upload: it
  has no \<^verbatim>\<open>selectedFile\<close> and starts in the view \<^verbatim>\<open>selection\<close>.\<close>

definition App_handleRetake :: "app_state \<Rightarrow> app_state" where
  "App_handleRetake s =
     s\<lparr>result := JNull, capturedImage := '''', error := '''', currentView := Selection\<rparr>"

subsection \<open>Sessions\<close>

text \<open>What the user can do, and a session as a list of such events, each with the
  environment it meets.\<close>

datatype event =
    SelectLiveCapture
  | SelectUpload
  | ProceedToCamera
  | SelectFinger FingerType
  | FileSelect "File list option"
  | UploadSubmit
  | Capture string
  | Retake
  | Back

fun step :: "env \<Rightarrow> event \<Rightarrow> app_state \<Rightarrow> app_state \<times> request list" where
  "step e SelectLiveCapture s = (handleSelectLiveCapture s, [])"
| "step e SelectUpload s = (handleSelectUpload s, [])"
| "step e ProceedToCamera s = (handleProceedToCamera s, [])"
| "step e (SelectFinger f) s = (setSelectedFinger f s, [])"
| "step e (FileSelect files) s = (handleFileSelect files s, [])"
| "step e UploadSubmit s = (final (handleUploadSubmit e s), sent (handleUploadSubmit e s))"
| "step e (Capture imageData) s =
     (final (handleCapture e imageData s), sent (handleCapture e imageData s))"
| "step e Retake s = (handleRetake s, [])"
| "step e Back s = (handleBack s, [])"

fun run :: "(env \<times> event) list \<Rightarrow> app_state \<Rightarrow> app_state \<times> request list" where
  "run [] s = (s, [])"
| "run (x # xs) s =
     (fst (run xs (fst (step (fst x) (snd x) s))),
      snd (step (fst x) (snd x) s) @ snd (run xs (fst (step (fst x) (snd x) s))))"

fun is_SelectFinger :: "event \<Rightarrow> bool" where
  "is_SelectFinger (SelectFinger f) = True"
| "is_SelectFinger ev = False"

text \<open>The selected file, when there is one, has an image type.\<close>

definition image_selected :: "app_state \<Rightarrow> bool" where
  "image_selected s \<longleftrightarrow> (case selectedFile s of None \<Rightarrow> True | Some f \<Rightarrow> is_image f)"

section \<open>Camera acquisition component\<close>

text \<open>
  The constraint sets the component passes to \<^verbatim>\<open>applyConstraints({advanced: [...]})\<close>:
  \<^verbatim>\<open>{torch}\<close>, and an exposure object with \<^verbatim>\<open>exposureMode\<close>, \<^verbatim>\<open>exposureTime\<close>,
  \<^verbatim>\<open>exposureCompensation\<close> and \<^verbatim>\<open>iso\<close>, of which the continuous one leaves
  \<^verbatim>\<open>exposureTime\<close> and \<^verbatim>\<open>iso\<close> out. The numbers are only stored and passed on, so they
  are reals.
\<close>

datatype advanced =
    Torch bool
  | Exposure string "real option" real "real option"

text \<open>A call on the device: \<^verbatim>\<open>trackRef.current.applyConstraints\<close> on a track, or
  \<^verbatim>\<open>imageCaptureRef.current.setOptions\<close> on an ImageCapture object.\<close>

datatype device_call = ApplyConstraints nat advanced | SetOptions nat advanced

text \<open>The \<^verbatim>\<open>useState\<close> cells and the two refs of the component (\<open>cameraError\<close> is its
  \<^verbatim>\<open>error\<close> cell); a ref holds the identity of its object.\<close>

record camera_state =
  hasPermission :: bool
  isMacroMode :: bool
  isFlashOn :: bool
  cameraError :: string
  exposureMode :: string
  exposureTime :: real
  exposureCompensation :: real
  iso :: real
  trackRef :: "nat option"
  imageCaptureRef :: "nat option"

definition manual_settings :: "camera_state \<Rightarrow> advanced" where
  "manual_settings c =
     Exposure ''manual'' (Some (exposureTime c)) (exposureCompensation c) (Some (iso c))"

text \<open>
  \<^verbatim>\<open>applySettings\<close>, as the calls it makes in order; \<open>accepts\<close> tells which constraint
  sets the track takes (\<^verbatim>\<open>applyConstraints\<close> resolves) and which it rejects. Every
  awaited call sits in a \<^verbatim>\<open>try\<close> of its own, so a rejection only skips the rest of that
  \<^verbatim>\<open>try\<close> (\<^verbatim>\<open>setOptions\<close> after the manual constraints); the outer \<^verbatim>\<open>catch\<close> is never
  entered and the state is not written. The function reads the state of the render that
  created it, and the refs.
\<close>

definition applySettings :: "(advanced \<Rightarrow> bool) \<Rightarrow> camera_state \<Rightarrow> device_call list" where
  "applySettings accepts c =
     (case trackRef c of
        None \<Rightarrow> []
      | Some t \<Rightarrow>
          ApplyConstraints t (Torch (isFlashOn c)) #
          (if isMacroMode c then
             ApplyConstraints t (manual_settings c) #
             (case imageCaptureRef c of
                Some ic \<Rightarrow> if accepts (manual_settings c) then [SetOptions ic (manual_settings c)] else []
              | None \<Rightarrow> [])
           else [ApplyConstraints t (Exposure ''continuous'' None 0 None)]))"

text \<open>
  \<^verbatim>\<open>toggleMacroMode\<close>: the new state, and the calls of its own \<^verbatim>\<open>await applySettings()\<close>,
  which is the function of the render the click happened in and so reads the state from
  before the setter calls.
\<close>

definition toggleMacroMode ::
  "(advanced \<Rightarrow> bool) \<Rightarrow> camera_state \<Rightarrow> camera_state \<times> device_call list" where
  "toggleMacroMode accepts c =
     (let newMacroMode = \<not> isMacroMode c;
          c1 = c\<lparr>isMacroMode := newMacroMode\<rparr>;
          c2 = (if newMacroMode
                then c1\<lparr>exposureTime := 2.5, iso := 400, exposureCompensation := 0\<rparr>
                else c1)
      in (c2, applySettings accepts c))"

text \<open>
  The two effects that follow a render: \<^verbatim>\<open>useEffect(..., [isFlashOn, isMacroMode])\<close> and
  \<^verbatim>\<open>useEffect(..., [exposureTime, iso])\<close> run when one of their dependencies differs from
  the render before, with the functions and the state of the new render.
\<close>

definition effects ::
  "(advanced \<Rightarrow> bool) \<Rightarrow> camera_state \<Rightarrow> camera_state \<Rightarrow> device_call list" where
  "effects accepts old new =
     (if (isFlashOn new \<noteq> isFlashOn old \<or> isMacroMode new \<noteq> isMacroMode old) \<and> hasPermission new
      then applySettings accepts new else []) @
     (if (exposureTime new \<noteq> exposureTime old \<or> iso new \<noteq> iso old) \<and> hasPermission new
          \<and> isMacroMode new
      then applySettings accepts new else [])"

text \<open>A click on the Manual/Auto button: the handler, then the effects of the render it
  causes. The calls are listed handler first; how the awaited calls of the handler and of
  the effects interleave in time is not represented.\<close>

definition click_toggleMacroMode ::
  "(advanced \<Rightarrow> bool) \<Rightarrow> camera_state \<Rightarrow> camera_state \<times> device_call list" where
  "click_toggleMacroMode accepts c =
     (fst (toggleMacroMode accepts c),
      snd (toggleMacroMode accepts c) @ effects accepts c (fst (toggleMacroMode accepts c)))"

fun is_manual_call :: "device_call \<Rightarrow> bool" where
  "is_manual_call (ApplyConstraints t (Exposure m et ec i)) = (m = ''manual'')"
| "is_manual_call (SetOptions ic (Exposure m et ec i)) = (m = ''manual'')"
| "is_manual_call c = False"

fun call_settings :: "device_call \<Rightarrow> advanced" where
  "call_settings (ApplyConstraints t a) = a"
| "call_settings (SetOptions ic a) = a"

section \<open>Example inputs\<close>

definition example_url :: string where
  "example_url = ''https://api.example.test''"

text \<open>An environment with the base URL set, in which the image decodes and the endpoint
  answers every request with \<open>r\<close>; one in which the fetch is rejected with \<open>err\<close>; and
  one without the base URL.\<close>

definition env_responding :: "response \<Rightarrow> env" where
  "env_responding r =
     \<lparr>baseUrl = Some example_url, fetch = (\<lambda>q. Resolves r), fetch_data_url = Inr\<rparr>"

definition env_rejecting :: "thrown \<Rightarrow> env" where
  "env_rejecting err =
     \<lparr>baseUrl = Some example_url, fetch = (\<lambda>q. Rejects err), fetch_data_url = Inr\<rparr>"

definition env_unconfigured :: env where
  "env_unconfigured =
     \<lparr>baseUrl = None, fetch = (\<lambda>q. Rejects NonError), fetch_data_url = Inr\<rparr>"

definition png_upload :: File where
  "png_upload = \<lparr>fname = ''print.png'', ftype = ''image/png'', fdata = ''PNG''\<rparr>"

definition text_upload :: File where
  "text_upload = \<lparr>fname = ''notes.txt'', ftype = ''text/plain'', fdata = ''hello''\<rparr>"

text \<open>The upload view with \<open>png_upload\<close> selected.\<close>

definition upload_ready :: app_state where
  "upload_ready = handleFileSelect (Some [png_upload]) (handleSelectUpload initial_state)"

definition ok_response :: response where
  "ok_response =
     \<lparr>status = 200,
      body = Inr (JObj [(''message'', JStr ''ok''),
                        (''data'', JObj [(''finger_type'', JStr ''middle'')])])\<rparr>"

definition field_errors :: json where
  "field_errors = JObj [(''field'', JArr [JStr ''error one'', JStr ''error two''])]"

text \<open>Responses that are not ok: a body of field errors, an empty object, an array of
  messages, a message that mentions a fetch, and a body that is not JSON.\<close>

definition field_error_response :: response where
  "field_error_response = \<lparr>status = 400, body = Inr field_errors\<rparr>"

definition empty_object_response :: response where
  "empty_object_response = \<lparr>status = 400, body = Inr (JObj [])\<rparr>"

definition array_error_response :: response where
  "array_error_response = \<lparr>status = 400, body = Inr (JArr [JStr ''Invalid image.''])\<rparr>"

definition fetch_message_response :: response where
  "fetch_message_response =
     \<lparr>status = 400, body = Inr (JObj [(''detail'', JStr ''Could not fetch the record'')])\<rparr>"

text \<open>A body with an array, a string, a number, a boolean, \<^verbatim>\<open>null\<close>, an object and an
  array with a \<^verbatim>\<open>null\<close> and a nested array as values; and a body whose value has an own
  property \<^verbatim>\<open>toString\<close>.\<close>

definition mixed_errors :: json where
  "mixed_errors =
     JObj [(''field'', JArr [JStr ''error one'', JStr ''error two'']),
           (''detail'', JStr ''Bad request''),
           (''code'', JNum ''42''),
           (''retry'', JBool False),
           (''hint'', JNull),
           (''meta'', JObj [(''a'', JNum ''1'')]),
           (''list'', JArr [JNull, JArr [JStr ''x'', JStr ''y''], JNum ''7''])]"

definition mixed_error_response :: response where
  "mixed_error_response = \<lparr>status = 422, body = Inr mixed_errors\<rparr>"

definition toString_response :: response where
  "toString_response =
     \<lparr>status = 400, body = Inr (JObj [(''field'', JObj [(''toString'', JStr ''x'')])])\<rparr>"

definition unparsable_response :: response where
  "unparsable_response = \<lparr>status = 503, body = Inl (ErrorObj ''Unexpected token <'')\<rparr>"

text \<open>Two sessions: a live capture from the finger selection on, and an upload in which
  a text file is chosen after the image.\<close>

definition live_capture_session :: "(env \<times> event) list" where
  "live_capture_session =
     [(env_responding ok_response, ProceedToCamera), (env_responding ok_response, Capture ''AAAA'')]"

definition upload_session :: "(env \<times> event) list" where
  "upload_session =
     [(env_responding ok_response, SelectUpload),
      (env_responding ok_response, FileSelect (Some [png_upload])),
      (env_responding ok_response, FileSelect (Some [text_upload])),
      (env_responding field_error_response, UploadSubmit)]"

text \<open>The camera component in auto mode, with the sliders left away from the defaults.\<close>

definition camera_auto :: camera_state where
  "camera_auto =
     \<lparr>hasPermission = True, isMacroMode = False, isFlashOn = True, cameraError = '''',
      exposureMode = ''manual'', exposureTime = 7, exposureCompensation = 0, iso = 800,
      trackRef = Some 1, imageCaptureRef = Some 1\<rparr>"

section \<open>Properties of the capture flow controller\<close>

subsection \<open>The submission block, case by case\<close>

lemma post_capture_unconfigured:
  "\<not> configured e \<Longrightarrow>
     post_capture e fg img = (Inl (ErrorObj ''API base URL is not configured''), [])"
  by (simp add: configured_def post_capture_def split: option.splits)

lemma post_capture_rejects:
  "baseUrl e = Some b \<Longrightarrow> b \<noteq> '''' \<Longrightarrow> fetch e (capture_request b fg img) = Rejects err \<Longrightarrow>
     post_capture e fg img = (Inl err, [capture_request b fg img])"
  by (simp add: post_capture_def)

lemma post_capture_resolves:
  "baseUrl e = Some b \<Longrightarrow> b \<noteq> '''' \<Longrightarrow> fetch e (capture_request b fg img) = Resolves r \<Longrightarrow>
     post_capture e fg img =
       (if ok r then body r else Inl (remote_error r), [capture_request b fg img])"
  by (simp add: post_capture_def)

lemma final_handleUploadSubmit:
  "selectedFile s = Some f \<Longrightarrow>
     final (handleUploadSubmit e s) =
       settle Upload (s\<lparr>currentView := Loading, error := ''''\<rparr>)
         (fst (post_capture e (selectedFinger s) f))"
  by (simp add: handleUploadSubmit_def Let_def)

lemma final_handleCapture:
  "fetch_data_url e imageData = Inr blob \<Longrightarrow>
     final (handleCapture e imageData s) =
       settle Camera (s\<lparr>capturedImage := imageData, currentView := Loading, error := ''''\<rparr>)
         (fst (post_capture e (selectedFinger s) (png_file blob)))"
  by (simp add: handleCapture_def Let_def)

lemma pending_handleUploadSubmit:
  "selectedFile s = Some f \<Longrightarrow>
     pending (handleUploadSubmit e s) = Some (s\<lparr>currentView := Loading, error := ''''\<rparr>)"
  by (simp add: handleUploadSubmit_def Let_def)

lemma pending_handleCapture:
  "pending (handleCapture e imageData s) =
     Some (s\<lparr>capturedImage := imageData, currentView := Loading, error := ''''\<rparr>)"
  by (simp add: handleCapture_def Let_def)

lemma upload_ready_eq:
  "upload_ready =
     \<lparr>currentView = Upload, selectedFinger = Index, capturedImage = '''',
      selectedFile = Some png_upload, result = JNull, error = ''''\<rparr>"
  by (simp add: upload_ready_def handleFileSelect_def handleSelectUpload_def initial_state_def
      first_file_def is_image_def png_upload_def)

lemma config_message_no_fetch: "\<not> includes_fetch ''API base URL is not configured''"
  by (simp add: includes_fetch_def sublist_Cons_right)

lemma generic_messages_no_fetch:
  "\<not> includes_fetch ''Server error. Please try again later.''"
  "\<not> includes_fetch ''Failed to process fingerprint. Please try again.''"
  "\<not> includes_fetch ''Failed to process fingerprint''"
  by (simp_all add: includes_fetch_def sublist_Cons_right)

lemma sent_handleUploadSubmit:
  "selectedFile s = Some g \<Longrightarrow> baseUrl e = Some b \<Longrightarrow> b \<noteq> [] \<Longrightarrow>
     sent (handleUploadSubmit e s) = [capture_request b (selectedFinger s) g]"
  by (simp add: handleUploadSubmit_def Let_def post_capture_def split: fetch_result.splits)

lemma sent_handleCapture:
  "fetch_data_url e imageData = Inr blob \<Longrightarrow> baseUrl e = Some b \<Longrightarrow> b \<noteq> [] \<Longrightarrow>
     sent (handleCapture e imageData s) = [capture_request b (selectedFinger s) (png_file blob)]"
  by (simp add: handleCapture_def Let_def post_capture_def split: fetch_result.splits)

lemma sent_post_capture_finger:
  "r \<in> set (snd (post_capture e fg img)) \<Longrightarrow> finger_type r = finger_str fg \<and> original_image r = img"
  by (auto simp: post_capture_def capture_request_def split: option.splits if_splits fetch_result.splits)

lemma settle_frame:
  "selectedFinger (settle v s r) = selectedFinger s"
  "selectedFile (settle v s r) = selectedFile s"
  by (simp_all add: settle_def split: sum.splits)

lemma post_capture_failure_kinds:
  "fst (post_capture e fg img) = Inl err \<longleftrightarrow>
     (\<not> configured e \<and> err = ErrorObj ''API base URL is not configured'')
   \<or> (\<exists>b. baseUrl e = Some b \<and> b \<noteq> [] \<and>
         (fetch e (capture_request b fg img) = Rejects err
          \<or> (\<exists>r. fetch e (capture_request b fg img) = Resolves r \<and>
                (\<not> ok r \<and> err = remote_error r \<or> ok r \<and> body r = Inl err))))"
  by (auto simp: post_capture_def configured_def split: option.splits fetch_result.splits)

lemma final_error_not_ok:
  assumes "baseUrl e = Some b" and "b \<noteq> []" and "\<not> ok r"
    and "(out = handleUploadSubmit e s \<and> selectedFile s = Some f
           \<and> fetch e (capture_request b (selectedFinger s) f) = Resolves r)
         \<or> (out = handleCapture e imageData s \<and> fetch_data_url e imageData = Inr blob
           \<and> fetch e (capture_request b (selectedFinger s) (png_file blob)) = Resolves r)"
  shows "error (final out) = catch_message (remote_error r)"
  using assms(4)
proof (elim disjE conjE)
  assume out: "out = handleUploadSubmit e s" and f: "selectedFile s = Some f"
    and net: "fetch e (capture_request b (selectedFinger s) f) = Resolves r"
  show ?thesis
    using post_capture_resolves [OF assms(1,2) net] assms(3)
    by (simp add: out final_handleUploadSubmit [OF f] settle_def)
next
  assume out: "out = handleCapture e imageData s" and d: "fetch_data_url e imageData = Inr blob"
    and net: "fetch e (capture_request b (selectedFinger s) (png_file blob)) = Resolves r"
  show ?thesis
    using post_capture_resolves [OF assms(1,2) net] assms(3)
    by (simp add: out final_handleCapture [OF d] settle_def)
qed

lemma remote_error_object:
  "body r = Inr (JObj kvs) \<Longrightarrow> errorMessages (JObj kvs) = Inr m \<Longrightarrow>
     remote_error r = ErrorObj (if m = [] then ''Failed to process fingerprint'' else m)"
  by (simp add: remote_error_def)

lemma remote_error_unstructured:
  "body r = Inl x \<or> body r = Inr JNull \<or> body r = Inr (JBool bv) \<or> body r = Inr (JNum n)
     \<or> body r = Inr (JStr t) \<Longrightarrow>
   remote_error r =
     ErrorObj (if 500 \<le> status r then ''Server error. Please try again later.''
               else ''Failed to process fingerprint. Please try again.'')"
  by (auto simp: remote_error_def)

text \<open>A string conversion that throws throws the TypeError, so that every error the
  block raises for a response that is not ok carries a message.\<close>

lemma js_String_throws:
  "js_String v = Inl err \<longrightarrow> err = ErrorObj type_error_message"
  "js_join_elem v = Inl err \<longrightarrow> err = ErrorObj type_error_message"
  "js_join sep vs = Inl err \<longrightarrow> err = ErrorObj type_error_message"
  by (induction v and v and sep vs rule: js_String_js_join_elem_js_join.induct)
    (simp_all split: sum.splits)

lemma entry_message_throws: "entry_message v = Inl err \<Longrightarrow> err = ErrorObj type_error_message"
  using js_String_throws(1,3) by (cases v) (simp_all split: if_splits)

lemma map_entries_throws: "map_entries vs = Inl err \<Longrightarrow> err = ErrorObj type_error_message"
proof (induction vs)
  case Nil
  then show ?case by simp
next
  case (Cons v vs)
  show ?case
  proof (cases "entry_message v")
    case (Inl e)
    with Cons.prems have "entry_message v = Inl err" by simp
    then show ?thesis by (rule entry_message_throws)
  next
    case (Inr s)
    with Cons.prems have "map_entries vs = Inl err" by (simp split: sum.splits)
    then show ?thesis by (rule Cons.IH)
  qed
qed

lemma errorMessages_throws: "errorMessages j = Inl err \<Longrightarrow> err = ErrorObj type_error_message"
  by (auto simp: errorMessages_def dest: map_entries_throws split: sum.splits)

lemma catch_message_nonempty: "m \<noteq> [] \<Longrightarrow> catch_message (ErrorObj m) \<noteq> []"
  by (simp add: catch_message_def)

lemma remote_error_nonempty: "\<exists>m. remote_error r = ErrorObj m \<and> m \<noteq> []"
proof (cases "errorMessages (case body r of Inl e \<Rightarrow> JNull | Inr j \<Rightarrow> j)")
  case (Inl e)
  then have "e = ErrorObj type_error_message" by (rule errorMessages_throws)
  with Inl show ?thesis by (simp add: remote_error_def Let_def type_error_message_def)
next
  case (Inr m)
  then show ?thesis by (simp add: remote_error_def Let_def)
qed

lemma remote_error_message_nonempty: "catch_message (remote_error r) \<noteq> []"
proof -
  obtain m where "remote_error r = ErrorObj m" and "m \<noteq> []"
    using remote_error_nonempty by blast
  then show ?thesis by (simp add: catch_message_nonempty)
qed

subsection \<open>The finger type of a request\<close>

lemma step_keeps_finger:
  "\<not> is_SelectFinger ev \<Longrightarrow> selectedFinger (fst (step e ev s)) = selectedFinger s"
  by (cases ev)
    (simp_all add: handleSelectLiveCapture_def handleSelectUpload_def handleProceedToCamera_def
      handleFileSelect_def handleUploadSubmit_def handleCapture_def handleRetake_def
      handleBack_def Let_def settle_frame split: option.splits View.splits)

lemma step_sends_finger:
  "r \<in> set (snd (step e ev s)) \<Longrightarrow> finger_type r = finger_str (selectedFinger s)"
  by (cases ev)
    (auto simp: handleUploadSubmit_def handleCapture_def Let_def
      dest: sent_post_capture_finger split: option.splits sum.splits)

lemma run_sends_finger:
  "\<forall>x\<in>set tr. \<not> is_SelectFinger (snd x) \<Longrightarrow> r \<in> set (snd (run tr s)) \<Longrightarrow>
     finger_type r = finger_str (selectedFinger s)"
proof (induction tr arbitrary: s)
  case Nil
  then show ?case by simp
next
  case (Cons x tr)
  from Cons.prems(2)
  consider "r \<in> set (snd (step (fst x) (snd x) s))"
    | "r \<in> set (snd (run tr (fst (step (fst x) (snd x) s))))"
    by auto
  then show ?case
  proof cases
    case 1
    then show ?thesis by (rule step_sends_finger)
  next
    case 2
    have "finger_type r = finger_str (selectedFinger (fst (step (fst x) (snd x) s)))"
      using Cons.IH [OF _ 2] Cons.prems(1) by simp
    then show ?thesis using Cons.prems(1) by (simp add: step_keeps_finger)
  qed
qed

lemma finger_str_inj: "finger_str g = finger_str f \<longleftrightarrow> g = f"
  by (cases g; cases f) simp_all

text \<open>
  Claim C1. After the finger \<open>f\<close> is selected, whatever the user does next short of
  selecting another finger, and whatever the environment answers, every request that a
  submission sends (from \<^verbatim>\<open>handleCapture\<close> or from \<^verbatim>\<open>handleUploadSubmit\<close>) carries the
  name of \<open>f\<close> in its \<^verbatim>\<open>finger_type\<close> field, and that name belongs to no other finger.
  \<open>f\<close> ranges over the five finger types.
\<close>

theorem finger_type_preserved:
  assumes "\<forall>x\<in>set tr. \<not> is_SelectFinger (snd x)"
    and "r \<in> set (snd (run tr (setSelectedFinger f s)))"
  shows "finger_type r = finger_str f \<and> (finger_type r = finger_str g \<longleftrightarrow> g = f)"
proof -
  have "finger_type r = finger_str (selectedFinger (setSelectedFinger f s))"
    by (rule run_sends_finger [OF assms])
  then have "finger_type r = finger_str f" by (simp add: setSelectedFinger_def)
  then show ?thesis by (auto simp: finger_str_inj)
qed

lemma live_capture_session_sent:
  "snd (run live_capture_session (setSelectedFinger Middle (handleSelectLiveCapture initial_state)))
     = [capture_request example_url Middle (png_file ''AAAA'')]"
  by (simp add: live_capture_session_def setSelectedFinger_def handleSelectLiveCapture_def
      initial_state_def handleProceedToCamera_def handleCapture_def Let_def post_capture_def
      env_responding_def example_url_def)

lemma upload_session_sent:
  "snd (run upload_session (setSelectedFinger Thumb initial_state))
     = [capture_request example_url Thumb png_upload]"
  by (simp add: upload_session_def setSelectedFinger_def initial_state_def handleSelectUpload_def
      handleFileSelect_def first_file_def is_image_def png_upload_def text_upload_def
      handleUploadSubmit_def Let_def post_capture_def env_responding_def example_url_def)

text \<open>The theorem at a live capture with the middle finger and at an upload with the
  thumb.\<close>

theorem finger_type_preserved_witness:
  "capture_request example_url Middle (png_file ''AAAA'')
     \<in> set (snd (run live_capture_session
                 (setSelectedFinger Middle (handleSelectLiveCapture initial_state))))
   \<and> finger_type (capture_request example_url Middle (png_file ''AAAA'')) = ''middle''
   \<and> capture_request example_url Thumb png_upload
     \<in> set (snd (run upload_session (setSelectedFinger Thumb initial_state)))
   \<and> finger_type (capture_request example_url Thumb png_upload) = ''thumb''"
proof -
  have 1: "\<forall>x\<in>set live_capture_session. \<not> is_SelectFinger (snd x)"
    by (simp add: live_capture_session_def)
  have 2: "capture_request example_url Middle (png_file ''AAAA'')
             \<in> set (snd (run live_capture_session
                   (setSelectedFinger Middle (handleSelectLiveCapture initial_state))))"
    by (simp add: live_capture_session_sent)
  have 3: "\<forall>x\<in>set upload_session. \<not> is_SelectFinger (snd x)"
    by (simp add: upload_session_def)
  have 4: "capture_request example_url Thumb png_upload
             \<in> set (snd (run upload_session (setSelectedFinger Thumb initial_state)))"
    by (simp add: upload_session_sent)
  from finger_type_preserved [OF 1 2] finger_type_preserved [OF 3 4] 2 4
  show ?thesis by simp
qed

subsection \<open>Success and retake\<close>

text \<open>
  Claim C2. A submission, by upload or by capture, that is answered with a 2xx response
  whose body parses to \<open>data\<close> shows the loading view while it waits, ends in the result
  view with \<open>data\<close> as the result, and a retake from there leads to the method selection
  with the captured image, the selected file, the result and the error message cleared.
\<close>

theorem success_then_retake:
  assumes "baseUrl e = Some b" and "b \<noteq> ''''" and "ok r" and "body r = Inr data"
    and "(out = handleUploadSubmit e s \<and> selectedFile s = Some f
           \<and> fetch e (capture_request b (selectedFinger s) f) = Resolves r)
         \<or> (out = handleCapture e imageData s \<and> fetch_data_url e imageData = Inr blob
           \<and> fetch e (capture_request b (selectedFinger s) (png_file blob)) = Resolves r)"
  shows "map_option currentView (pending out) = Some Loading
       \<and> currentView (final out) = Result
       \<and> result (final out) = data
       \<and> currentView (handleRetake (final out)) = MethodSelection
       \<and> capturedImage (handleRetake (final out)) = ''''
       \<and> selectedFile (handleRetake (final out)) = None
       \<and> result (handleRetake (final out)) = JNull
       \<and> error (handleRetake (final out)) = ''''"
  using assms(5)
proof (elim disjE conjE)
  assume out: "out = handleUploadSubmit e s" and f: "selectedFile s = Some f"
    and net: "fetch e (capture_request b (selectedFinger s) f) = Resolves r"
  have "post_capture e (selectedFinger s) f = (Inr data, [capture_request b (selectedFinger s) f])"
    using post_capture_resolves [OF assms(1,2) net] assms(3,4) by simp
  then show ?thesis
    by (simp add: out final_handleUploadSubmit [OF f] pending_handleUploadSubmit [OF f]
        settle_def handleRetake_def)
next
  assume out: "out = handleCapture e imageData s" and d: "fetch_data_url e imageData = Inr blob"
    and net: "fetch e (capture_request b (selectedFinger s) (png_file blob)) = Resolves r"
  have "post_capture e (selectedFinger s) (png_file blob)
          = (Inr data, [capture_request b (selectedFinger s) (png_file blob)])"
    using post_capture_resolves [OF assms(1,2) net] assms(3,4) by simp
  then show ?thesis
    by (simp add: out final_handleCapture [OF d] pending_handleCapture
        settle_def handleRetake_def)
qed

text \<open>The theorem at an upload of \<open>png_upload\<close> answered with \<open>ok_response\<close>.\<close>

theorem success_then_retake_witness:
  "map_option currentView (pending (handleUploadSubmit (env_responding ok_response) upload_ready))
     = Some Loading
   \<and> currentView (final (handleUploadSubmit (env_responding ok_response) upload_ready)) = Result
   \<and> result (final (handleUploadSubmit (env_responding ok_response) upload_ready))
       = JObj [(''message'', JStr ''ok''), (''data'', JObj [(''finger_type'', JStr ''middle'')])]
   \<and> currentView (handleRetake (final (handleUploadSubmit (env_responding ok_response) upload_ready)))
       = MethodSelection
   \<and> capturedImage (handleRetake (final (handleUploadSubmit (env_responding ok_response) upload_ready)))
       = ''''
   \<and> selectedFile (handleRetake (final (handleUploadSubmit (env_responding ok_response) upload_ready)))
       = None
   \<and> result (handleRetake (final (handleUploadSubmit (env_responding ok_response) upload_ready)))
       = JNull
   \<and> error (handleRetake (final (handleUploadSubmit (env_responding ok_response) upload_ready)))
       = ''''"
proof -
  let ?e = "env_responding ok_response"
  let ?data = "JObj [(''message'', JStr ''ok''), (''data'', JObj [(''finger_type'', JStr ''middle'')])]"
  have 1: "baseUrl ?e = Some example_url" by (simp add: env_responding_def)
  have 2: "example_url \<noteq> ''''" by (simp add: example_url_def)
  have 3: "ok ok_response" by (simp add: ok_def ok_response_def)
  have 4: "body ok_response = Inr ?data" by (simp add: ok_response_def)
  have 5: "(handleUploadSubmit ?e upload_ready = handleUploadSubmit ?e upload_ready
             \<and> selectedFile upload_ready = Some png_upload
             \<and> fetch ?e (capture_request example_url (selectedFinger upload_ready) png_upload)
                 = Resolves ok_response)
           \<or> (handleUploadSubmit ?e upload_ready = handleCapture ?e '''' upload_ready
             \<and> fetch_data_url ?e '''' = Inr ''''
             \<and> fetch ?e (capture_request example_url (selectedFinger upload_ready) (png_file ''''))
                 = Resolves ok_response)"
    by (simp add: upload_ready_eq env_responding_def)
  from success_then_retake [OF 1 2 3 4 5]
  show ?thesis .
qed

text \<open>\<^verbatim>\<open>handleRetake\<close> of App.tsx clears the same cells and returns to the first view
  of that variant.\<close>

lemma App_handleRetake_clears:
  "currentView (App_handleRetake s) = Selection \<and> capturedImage (App_handleRetake s) = ''''
   \<and> result (App_handleRetake s) = JNull \<and> error (App_handleRetake s) = ''''"
  by (simp add: App_handleRetake_def)

subsection \<open>Error messages of a response that is not ok\<close>

text \<open>On values that can be stringified, \<open>errorMessages\<close> computes the formula.\<close>

lemma spec_string_JArr: "spec_string (JArr xs) = sep_concat '','' (map spec_elem xs)"
  by (simp add: spec_elem_def cong: map_cong)

lemma join_strings_sep_concat: "join_strings sep ss = sep_concat sep ss"
  by (induction sep ss rule: join_strings.induct) simp_all

lemma js_String_plain:
  "plain v \<longrightarrow> js_String v = Inr (spec_string v)"
  "plain v \<longrightarrow> js_join_elem v = Inr (spec_elem v)"
  "list_all plain vs \<longrightarrow> js_join sep vs = Inr (sep_concat sep (map spec_elem vs))"
proof (induction v and v and sep vs rule: js_String_js_join_elem_js_join.induct)
  case (7 v)
  then show ?case by (simp add: spec_elem_def)
qed (simp_all add: spec_string_JArr del: spec_string.simps(5))

lemma entry_message_plain: "plain v \<Longrightarrow> entry_message v = Inr (spec_entry v)"
  using js_String_plain(1,3) by (cases v) (simp_all add: spec_entry_def)

lemma map_entries_plain: "list_all plain vs \<Longrightarrow> map_entries vs = Inr (map spec_entry vs)"
  by (induction vs) (simp_all add: entry_message_plain)

lemma errorMessages_plain:
  "list_all plain (map snd kvs) \<Longrightarrow>
     errorMessages (JObj kvs) = Inr (sep_concat ''. '' (map spec_entry (map snd kvs)))"
  by (simp add: errorMessages_def map_entries_plain join_strings_sep_concat)

text \<open>
  Claim C3, as amended. For a response that is not ok and whose body parses to a JSON
  object, let \<open>m\<close> be the text of the entries (an array value: its elements stringified
  and joined with a comma and a space; any other value stringified) joined with a full
  stop and a space. The error shown is \<open>m\<close> when \<open>m\<close> is not empty, and
  \<^verbatim>\<open>Failed to process fingerprint\<close> when \<open>m\<close> is empty. The statement is for bodies
  whose values can be stringified (no object with an own property \<^verbatim>\<open>toString\<close>, alone or
  inside an array value) and for an \<open>m\<close> without the word \<^verbatim>\<open>fetch\<close>.
\<close>

theorem object_error_message:
  assumes "baseUrl e = Some b" and "b \<noteq> ''''" and "\<not> ok r"
    and "body r = Inr (JObj kvs)"
    and "list_all plain (map snd kvs)"
    and "\<not> includes_fetch (sep_concat ''. '' (map spec_entry (map snd kvs)))"
    and "(out = handleUploadSubmit e s \<and> selectedFile s = Some f
           \<and> fetch e (capture_request b (selectedFinger s) f) = Resolves r)
         \<or> (out = handleCapture e imageData s \<and> fetch_data_url e imageData = Inr blob
           \<and> fetch e (capture_request b (selectedFinger s) (png_file blob)) = Resolves r)"
  shows "error (final out) =
           (if sep_concat ''. '' (map spec_entry (map snd kvs)) = ''''
            then ''Failed to process fingerprint''
            else sep_concat ''. '' (map spec_entry (map snd kvs)))"
proof -
  let ?m = "sep_concat ''. '' (map spec_entry (map snd kvs))"
  have "error (final out) = catch_message (remote_error r)"
    by (rule final_error_not_ok [OF assms(1,2,3,7)])
  also have "remote_error r = ErrorObj (if ?m = [] then ''Failed to process fingerprint'' else ?m)"
    by (rule remote_error_object [OF assms(4) errorMessages_plain [OF assms(5)]])
  also have "catch_message \<dots> = (if ?m = [] then ''Failed to process fingerprint'' else ?m)"
    using assms(6) generic_messages_no_fetch(3) by (simp add: catch_message_def)
  finally show ?thesis .
qed

lemma errorMessages_field_errors: "errorMessages field_errors = Inr ''error one, error two''"
  by (simp add: errorMessages_def field_errors_def)

lemma mixed_errors_message:
  "sep_concat ''. '' (map spec_entry (map snd
     [(''field'', JArr [JStr ''error one'', JStr ''error two'']),
      (''detail'', JStr ''Bad request''),
      (''code'', JNum ''42''),
      (''retry'', JBool False),
      (''hint'', JNull),
      (''meta'', JObj [(''a'', JNum ''1'')]),
      (''list'', JArr [JNull, JArr [JStr ''x'', JStr ''y''], JNum ''7''])]))
   = ''error one, error two. Bad request. 42. false. null. [object Object]. , x,y, 7''"
  by (simp add: spec_entry_def spec_elem_def)

lemma field_errors_message:
  "sep_concat ''. '' (map spec_entry (map snd
     [(''field'', JArr [JStr ''error one'', JStr ''error two''])]))
   = ''error one, error two''"
  by (simp add: spec_entry_def spec_elem_def)

lemma upload_ready_resolves:
  "(handleUploadSubmit (env_responding r) upload_ready
      = handleUploadSubmit (env_responding r) upload_ready
     \<and> selectedFile upload_ready = Some png_upload
     \<and> fetch (env_responding r)
          (capture_request example_url (selectedFinger upload_ready) png_upload) = Resolves r)
   \<or> (handleUploadSubmit (env_responding r) upload_ready
        = handleCapture (env_responding r) [] upload_ready
     \<and> fetch_data_url (env_responding r) [] = Inr []
     \<and> fetch (env_responding r)
          (capture_request example_url (selectedFinger upload_ready) (png_file [])) = Resolves r)"
  by (simp add: upload_ready_eq env_responding_def)

text \<open>A body with seven entries of every kind of value, with status 422, and the body
  \<^verbatim>\<open>{"field": ["error one", "error two"]}\<close> with status 400.\<close>

theorem object_error_message_witness:
  "error (final (handleUploadSubmit (env_responding mixed_error_response) upload_ready))
     = ''error one, error two. Bad request. 42. false. null. [object Object]. , x,y, 7''
   \<and> error (final (handleUploadSubmit (env_responding field_error_response) upload_ready))
     = ''error one, error two''"
proof -
  have 1: "baseUrl (env_responding r) = Some example_url" for r
    by (simp add: env_responding_def)
  have 2: "example_url \<noteq> ''''" by (simp add: example_url_def)
  have m3: "\<not> ok mixed_error_response" by (simp add: ok_def mixed_error_response_def)
  have m4: "body mixed_error_response
             = Inr (JObj [(''field'', JArr [JStr ''error one'', JStr ''error two'']),
                          (''detail'', JStr ''Bad request''),
                          (''code'', JNum ''42''),
                          (''retry'', JBool False),
                          (''hint'', JNull),
                          (''meta'', JObj [(''a'', JNum ''1'')]),
                          (''list'', JArr [JNull, JArr [JStr ''x'', JStr ''y''], JNum ''7''])])"
    by (simp add: mixed_error_response_def mixed_errors_def)
  have m5: "list_all plain (map snd
             [(''field'', JArr [JStr ''error one'', JStr ''error two'']),
              (''detail'', JStr ''Bad request''),
              (''code'', JNum ''42''),
              (''retry'', JBool False),
              (''hint'', JNull),
              (''meta'', JObj [(''a'', JNum ''1'')]),
              (''list'', JArr [JNull, JArr [JStr ''x'', JStr ''y''], JNum ''7''])])"
    by simp
  have m6: "\<not> includes_fetch (sep_concat ''. '' (map spec_entry (map snd
             [(''field'', JArr [JStr ''error one'', JStr ''error two'']),
              (''detail'', JStr ''Bad request''),
              (''code'', JNum ''42''),
              (''retry'', JBool False),
              (''hint'', JNull),
              (''meta'', JObj [(''a'', JNum ''1'')]),
              (''list'', JArr [JNull, JArr [JStr ''x'', JStr ''y''], JNum ''7''])])))"
    unfolding mixed_errors_message by (simp add: includes_fetch_def sublist_Cons_right)
  have f3: "\<not> ok field_error_response" by (simp add: ok_def field_error_response_def)
  have f4: "body field_error_response
             = Inr (JObj [(''field'', JArr [JStr ''error one'', JStr ''error two''])])"
    by (simp add: field_error_response_def field_errors_def)
  have f5: "list_all plain (map snd [(''field'', JArr [JStr ''error one'', JStr ''error two''])])"
    by simp
  have f6: "\<not> includes_fetch (sep_concat ''. '' (map spec_entry (map snd
             [(''field'', JArr [JStr ''error one'', JStr ''error two''])])))"
    unfolding field_errors_message by (simp add: includes_fetch_def sublist_Cons_right)
  have a: "error (final (handleUploadSubmit (env_responding mixed_error_response) upload_ready))
     = ''error one, error two. Bad request. 42. false. null. [object Object]. , x,y, 7''"
    using object_error_message [OF 1 2 m3 m4 m5 m6 upload_ready_resolves]
    unfolding mixed_errors_message by simp
  have b: "error (final (handleUploadSubmit (env_responding field_error_response) upload_ready))
     = ''error one, error two''"
    using object_error_message [OF 1 2 f3 f4 f5 f6 upload_ready_resolves]
    unfolding field_errors_message by simp
  from a b show ?thesis by blast
qed

text \<open>
  Claim C3 as it is written fails for the body \<^verbatim>\<open>{}\<close>: the entries join to the empty
  string, and the error shown is the fallback of \<^verbatim>\<open>errorMessages || ...\<close>.
\<close>

theorem empty_object_counterexample:
  "errorMessages (JObj []) = Inr ''''
   \<and> error (final (handleUploadSubmit (env_responding empty_object_response) upload_ready))
       = ''Failed to process fingerprint''"
  by (simp add: errorMessages_def handleUploadSubmit_def upload_ready_eq Let_def post_capture_def
      env_responding_def example_url_def empty_object_response_def ok_def remote_error_def
      settle_def catch_message_def generic_messages_no_fetch)

text \<open>A message of the server that contains \<^verbatim>\<open>fetch\<close> is taken by the \<^verbatim>\<open>catch\<close>
  block for a network failure.\<close>

lemma fetch_in_server_message:
  "errorMessages (JObj [(''detail'', JStr ''Could not fetch the record'')])
     = Inr ''Could not fetch the record''
   \<and> error (final (handleUploadSubmit (env_responding fetch_message_response) upload_ready))
       = ''Network error. Please check your connection.''"
  by (simp add: errorMessages_def handleUploadSubmit_def upload_ready_eq Let_def post_capture_def
      env_responding_def example_url_def fetch_message_response_def ok_def remote_error_def
      settle_def catch_message_def includes_fetch_def sublist_Cons_right)

text \<open>A value with an own property \<^verbatim>\<open>toString\<close> makes \<^verbatim>\<open>String(value)\<close> throw, and
  the message of that TypeError is shown.\<close>

lemma toString_entry_throws:
  "\<not> plain (JObj [(''toString'', JStr ''x'')])
   \<and> errorMessages (JObj [(''field'', JObj [(''toString'', JStr ''x'')])])
       = Inl (ErrorObj type_error_message)
   \<and> error (final (handleUploadSubmit (env_responding toString_response) upload_ready))
       = type_error_message"
  by (simp add: errorMessages_def handleUploadSubmit_def upload_ready_eq Let_def post_capture_def
      env_responding_def example_url_def toString_response_def ok_def remote_error_def
      settle_def catch_message_def includes_fetch_def sublist_Cons_right type_error_message_def)

text \<open>
  Claim C4, as amended. A response that is not ok and whose body does not parse, or
  parses to \<^verbatim>\<open>null\<close>, a boolean, a number or a string, shows the server-error message
  when its status is 500 or more and the retry message for every other status (the range
  400 to 498 of the claim included).
\<close>

theorem unstructured_error_message:
  assumes "baseUrl e = Some b" and "b \<noteq> ''''" and "\<not> ok r"
    and "body r = Inl x \<or> body r = Inr JNull \<or> body r = Inr (JBool bv) \<or> body r = Inr (JNum n)
           \<or> body r = Inr (JStr t)"
    and "(out = handleUploadSubmit e s \<and> selectedFile s = Some f
           \<and> fetch e (capture_request b (selectedFinger s) f) = Resolves r)
         \<or> (out = handleCapture e imageData s \<and> fetch_data_url e imageData = Inr blob
           \<and> fetch e (capture_request b (selectedFinger s) (png_file blob)) = Resolves r)"
  shows "error (final out) =
           (if 500 \<le> status r then ''Server error. Please try again later.''
            else ''Failed to process fingerprint. Please try again.'')"
proof -
  have "error (final out) = catch_message (remote_error r)"
    by (rule final_error_not_ok [OF assms(1,2,3,5)])
  also have "remote_error r =
      ErrorObj (if 500 \<le> status r then ''Server error. Please try again later.''
                else ''Failed to process fingerprint. Please try again.'')"
    by (rule remote_error_unstructured [OF assms(4)])
  also have "catch_message \<dots> =
      (if 500 \<le> status r then ''Server error. Please try again later.''
       else ''Failed to process fingerprint. Please try again.'')"
    using generic_messages_no_fetch(1,2) by (simp add: catch_message_def)
  finally show ?thesis .
qed

text \<open>Status 503 with a body that is not JSON.\<close>

theorem unstructured_error_message_witness:
  "error (final (handleUploadSubmit (env_responding unparsable_response) upload_ready))
     = ''Server error. Please try again later.''"
proof -
  let ?e = "env_responding unparsable_response"
  have 1: "baseUrl ?e = Some example_url" by (simp add: env_responding_def)
  have 2: "example_url \<noteq> ''''" by (simp add: example_url_def)
  have 3: "\<not> ok unparsable_response" by (simp add: ok_def unparsable_response_def)
  have 4: "body unparsable_response = Inl (ErrorObj ''Unexpected token <'')
           \<or> body unparsable_response = Inr JNull
           \<or> body unparsable_response = Inr (JBool True)
           \<or> body unparsable_response = Inr (JNum '''')
           \<or> body unparsable_response = Inr (JStr '''')"
    by (simp add: unparsable_response_def)
  have 5: "(handleUploadSubmit ?e upload_ready = handleUploadSubmit ?e upload_ready
             \<and> selectedFile upload_ready = Some png_upload
             \<and> fetch ?e (capture_request example_url (selectedFinger upload_ready) png_upload)
                 = Resolves unparsable_response)
           \<or> (handleUploadSubmit ?e upload_ready = handleCapture ?e '''' upload_ready
             \<and> fetch_data_url ?e '''' = Inr ''''
             \<and> fetch ?e (capture_request example_url (selectedFinger upload_ready) (png_file ''''))
                 = Resolves unparsable_response)"
    by (simp add: upload_ready_eq env_responding_def)
  from unstructured_error_message [OF 1 2 3 4 5] show ?thesis
    by (simp add: unparsable_response_def)
qed

text \<open>
  Claim C4 as it is written fails for a body that is a JSON array, which is not a JSON
  object but passes \<^verbatim>\<open>typeof errorData === 'object'\<close>: status 400 with the body
  \<^verbatim>\<open>["Invalid image."]\<close> shows the element, not the retry message.
\<close>

theorem array_body_counterexample:
  "error (final (handleUploadSubmit (env_responding array_error_response) upload_ready))
     = ''Invalid image.''
   \<and> error (final (handleUploadSubmit (env_responding array_error_response) upload_ready))
     \<noteq> ''Failed to process fingerprint. Please try again.''"
  by (simp add: errorMessages_def handleUploadSubmit_def upload_ready_eq Let_def post_capture_def
      env_responding_def example_url_def array_error_response_def ok_def remote_error_def
      settle_def catch_message_def includes_fetch_def sublist_Cons_right)

subsection \<open>Failure of a submission\<close>

lemma catch_message_shown: "err \<noteq> ErrorObj [] \<Longrightarrow> catch_message err \<noteq> []"
  by (cases err) (simp_all add: catch_message_def)

text \<open>An error without a message can only come from the browser: from a rejected
  fetch, or from \<^verbatim>\<open>response.json()\<close> on an ok response.\<close>

lemma post_capture_empty_error:
  assumes "fst (post_capture e fg img) = Inl (ErrorObj [])"
  shows "\<exists>b. baseUrl e = Some b \<and> b \<noteq> [] \<and>
           (fetch e (capture_request b fg img) = Rejects (ErrorObj [])
            \<or> (\<exists>r. fetch e (capture_request b fg img) = Resolves r \<and> ok r
                   \<and> body r = Inl (ErrorObj [])))"
proof -
  have ne: "remote_error r \<noteq> ErrorObj []" for r
    using remote_error_nonempty [of r] by auto
  from assms show ?thesis
    unfolding post_capture_failure_kinds using ne by (metis thrown.inject list.distinct(1))
qed

text \<open>
  Claim C5. When the submission block throws \<open>err\<close> (by \<open>post_capture_failure_kinds\<close>:
  the base URL is missing, the fetch is rejected, the response is not ok, or the body of an
  ok response does not parse; for a capture also when the captured image does not decode),
  the handler has set the loading view, the view returns to the one the submission came
  from (upload for \<^verbatim>\<open>handleUploadSubmit\<close>, camera for \<^verbatim>\<open>handleCapture\<close>), the error is the
  message the \<^verbatim>\<open>catch\<close> block derives from \<open>err\<close>, and that view shows it. The
  statement is for every \<open>err\<close> but an \<^verbatim>\<open>Error\<close> whose message is empty, which the code
  never throws and a browser does not reject with. (In the upload path a missing base URL
  throws before the first \<^verbatim>\<open>await\<close>, so that the two writes of the view fall into one
  render.)
\<close>

theorem failure_returns_to_origin:
  assumes "(out = handleUploadSubmit e s \<and> origin = Upload \<and> selectedFile s = Some f
             \<and> fst (post_capture e (selectedFinger s) f) = Inl err)
         \<or> (out = handleCapture e imageData s \<and> origin = Camera
             \<and> (fetch_data_url e imageData = Inl err
                \<or> (\<exists>blob. fetch_data_url e imageData = Inr blob
                      \<and> fst (post_capture e (selectedFinger s) (png_file blob)) = Inl err)))"
    and "err \<noteq> ErrorObj ''''"
  shows "map_option currentView (pending out) = Some Loading
       \<and> currentView (final out) = origin
       \<and> error (final out) = catch_message err
       \<and> shown_error (final out) = Some (catch_message err)"
  using assms(1) catch_message_shown [OF assms(2)]
  by (auto simp: handleUploadSubmit_def handleCapture_def Let_def settle_def shown_error_def)

text \<open>An upload without the base URL, an upload answered with status 503 and a body that
  is not JSON, a capture rejected with \<^verbatim>\<open>Failed to fetch\<close>, and a capture rejected with
  a value that is not an \<^verbatim>\<open>Error\<close>.\<close>

theorem failure_returns_to_origin_witness:
  "currentView (final (handleUploadSubmit env_unconfigured upload_ready)) = Upload
   \<and> shown_error (final (handleUploadSubmit env_unconfigured upload_ready))
       = Some ''API base URL is not configured''
   \<and> currentView (final (handleUploadSubmit (env_responding unparsable_response) upload_ready))
       = Upload
   \<and> shown_error (final (handleUploadSubmit (env_responding unparsable_response) upload_ready))
       = Some ''Server error. Please try again later.''
   \<and> map_option currentView
        (pending (handleCapture (env_rejecting (ErrorObj ''Failed to fetch'')) ''AAAA''
           (handleProceedToCamera initial_state))) = Some Loading
   \<and> currentView (final (handleCapture (env_rejecting (ErrorObj ''Failed to fetch'')) ''AAAA''
        (handleProceedToCamera initial_state))) = Camera
   \<and> shown_error (final (handleCapture (env_rejecting (ErrorObj ''Failed to fetch'')) ''AAAA''
        (handleProceedToCamera initial_state)))
       = Some ''Network error. Please check your connection.''
   \<and> currentView (final (handleCapture (env_rejecting NonError) ''AAAA''
        (handleProceedToCamera initial_state))) = Camera
   \<and> shown_error (final (handleCapture (env_rejecting NonError) ''AAAA''
        (handleProceedToCamera initial_state)))
       = Some ''An error occurred. Please try again.''"
proof -
  let ?cam = "handleProceedToCamera initial_state"
  let ?cfg = "ErrorObj ''API base URL is not configured''"
  let ?srv = "ErrorObj ''Server error. Please try again later.''"
  let ?net = "ErrorObj ''Failed to fetch''"
  have sel: "selectedFile upload_ready = Some png_upload" by (simp add: upload_ready_eq)
  have u: "(handleUploadSubmit e upload_ready = handleUploadSubmit e upload_ready \<and> Upload = Upload
              \<and> selectedFile upload_ready = Some png_upload
              \<and> fst (post_capture e (selectedFinger upload_ready) png_upload) = Inl err)
         \<or> (handleUploadSubmit e upload_ready = handleCapture e [] upload_ready \<and> Upload = Camera
              \<and> (fetch_data_url e [] = Inl err
                 \<or> (\<exists>blob. fetch_data_url e [] = Inr blob
                       \<and> fst (post_capture e (selectedFinger upload_ready) (png_file blob)) = Inl err)))"
    if "fst (post_capture e (selectedFinger upload_ready) png_upload) = Inl err" for e err
    using that sel by simp
  have c: "(handleCapture (env_rejecting err) ''AAAA'' ?cam
              = handleUploadSubmit (env_rejecting err) ?cam \<and> Camera = Upload
              \<and> selectedFile ?cam = Some png_upload
              \<and> fst (post_capture (env_rejecting err) (selectedFinger ?cam) png_upload) = Inl err)
         \<or> (handleCapture (env_rejecting err) ''AAAA'' ?cam
              = handleCapture (env_rejecting err) ''AAAA'' ?cam \<and> Camera = Camera
              \<and> (fetch_data_url (env_rejecting err) ''AAAA'' = Inl err
                 \<or> (\<exists>blob. fetch_data_url (env_rejecting err) ''AAAA'' = Inr blob
                       \<and> fst (post_capture (env_rejecting err) (selectedFinger ?cam) (png_file blob))
                           = Inl err)))" for err
    by (simp add: env_rejecting_def post_capture_def example_url_def)
  have p1: "fst (post_capture env_unconfigured (selectedFinger upload_ready) png_upload) = Inl ?cfg"
    by (simp add: post_capture_def env_unconfigured_def)
  have p2: "fst (post_capture (env_responding unparsable_response) (selectedFinger upload_ready)
                   png_upload) = Inl ?srv"
    by (simp add: post_capture_def env_responding_def example_url_def unparsable_response_def
        ok_def remote_error_def)
  have m1: "catch_message ?cfg = ''API base URL is not configured''"
    and m2: "catch_message ?srv = ''Server error. Please try again later.''"
    and m3: "catch_message ?net = ''Network error. Please check your connection.''"
    and m4: "catch_message NonError = ''An error occurred. Please try again.''"
    by (simp_all add: catch_message_def includes_fetch_def sublist_Cons_right)
  have n1: "?cfg \<noteq> ErrorObj ''''" and n2: "?srv \<noteq> ErrorObj ''''" and n3: "?net \<noteq> ErrorObj ''''"
    and n4: "NonError \<noteq> ErrorObj ''''"
    by simp_all
  note t1 = failure_returns_to_origin [OF u [OF p1] n1, unfolded m1]
  note t2 = failure_returns_to_origin [OF u [OF p2] n2, unfolded m2]
  note t3 = failure_returns_to_origin [OF c [of ?net] n3, unfolded m3]
  note t4 = failure_returns_to_origin [OF c [of NonError] n4, unfolded m4]
  from t1 t2 t3 t4 show ?thesis by blast
qed

text \<open>The case left out: a rejection with an \<^verbatim>\<open>Error\<close> whose message is empty leaves
  the error empty, and the error box renders nothing.\<close>

lemma empty_rejection_shows_nothing:
  "error (final (handleUploadSubmit (env_rejecting (ErrorObj [])) upload_ready)) = []
   \<and> shown_error (final (handleUploadSubmit (env_rejecting (ErrorObj [])) upload_ready)) = None"
  by (simp add: handleUploadSubmit_def upload_ready_eq Let_def post_capture_def
      env_rejecting_def example_url_def settle_def catch_message_def includes_fetch_def
      shown_error_def)

subsection \<open>Missing configuration\<close>

lemma step_unconfigured: "\<not> configured e \<Longrightarrow> snd (step e ev s) = []"
  by (cases ev)
    (simp_all add: handleUploadSubmit_def handleCapture_def Let_def post_capture_unconfigured
      split: option.splits sum.splits)

lemma run_unconfigured: "\<not> configured e \<Longrightarrow> snd (run (map (Pair e) evs) s) = []"
  by (induction evs arbitrary: s) (simp_all add: step_unconfigured)

text \<open>
  Claim C6. Without the base URL (undefined or empty) no handler and no session sends a
  request, and a submission fails with \<^verbatim>\<open>API base URL is not configured\<close>, shown in the
  view it came from: an upload with a file selected, and a capture whose image decodes
  (the two steps that come before the check of the configuration in the source).
\<close>

theorem unconfigured_fails_locally:
  assumes "\<not> configured e"
  shows "sent (handleUploadSubmit e s) = []
       \<and> sent (handleCapture e imageData s) = []
       \<and> snd (run (map (Pair e) evs) s) = []
       \<and> (selectedFile s = Some f \<longrightarrow>
            error (final (handleUploadSubmit e s)) = ''API base URL is not configured''
            \<and> currentView (final (handleUploadSubmit e s)) = Upload
            \<and> shown_error (final (handleUploadSubmit e s)) = Some ''API base URL is not configured'')
       \<and> (fetch_data_url e imageData = Inr blob \<longrightarrow>
            error (final (handleCapture e imageData s)) = ''API base URL is not configured''
            \<and> currentView (final (handleCapture e imageData s)) = Camera
            \<and> shown_error (final (handleCapture e imageData s)) = Some ''API base URL is not configured'')"
proof -
  have u: "sent (handleUploadSubmit e s) = []"
    using step_unconfigured [OF assms, of UploadSubmit s] by simp
  have c: "sent (handleCapture e imageData s) = []"
    using step_unconfigured [OF assms, of "Capture imageData" s] by simp
  have msg: "catch_message (ErrorObj ''API base URL is not configured'')
               = ''API base URL is not configured''"
    using config_message_no_fetch by (simp add: catch_message_def)
  have fu: "selectedFile s = Some f \<Longrightarrow>
              final (handleUploadSubmit e s)
                = s\<lparr>currentView := Upload, error := ''API base URL is not configured''\<rparr>"
    by (simp add: final_handleUploadSubmit post_capture_unconfigured [OF assms] settle_def msg)
  have fc: "fetch_data_url e imageData = Inr blob \<Longrightarrow>
              final (handleCapture e imageData s)
                = s\<lparr>capturedImage := imageData, currentView := Camera,
                     error := ''API base URL is not configured''\<rparr>"
    by (simp add: final_handleCapture post_capture_unconfigured [OF assms] settle_def msg)
  show ?thesis
    using fu fc by (simp add: u c run_unconfigured [OF assms] shown_error_def)
qed

text \<open>The theorem in \<open>env_unconfigured\<close>.\<close>

theorem unconfigured_fails_locally_witness:
  "sent (handleUploadSubmit env_unconfigured upload_ready) = []
   \<and> sent (handleCapture env_unconfigured ''AAAA'' upload_ready) = []
   \<and> snd (run (map (Pair env_unconfigured) [UploadSubmit, Back, SelectLiveCapture,
             ProceedToCamera, Capture ''AAAA'']) upload_ready) = []
   \<and> error (final (handleUploadSubmit env_unconfigured upload_ready))
       = ''API base URL is not configured''
   \<and> currentView (final (handleUploadSubmit env_unconfigured upload_ready)) = Upload
   \<and> shown_error (final (handleUploadSubmit env_unconfigured upload_ready))
       = Some ''API base URL is not configured''
   \<and> error (final (handleCapture env_unconfigured ''AAAA'' upload_ready))
       = ''API base URL is not configured''
   \<and> currentView (final (handleCapture env_unconfigured ''AAAA'' upload_ready)) = Camera
   \<and> shown_error (final (handleCapture env_unconfigured ''AAAA'' upload_ready))
       = Some ''API base URL is not configured''"
proof -
  have 1: "\<not> configured env_unconfigured"
    by (simp add: configured_def env_unconfigured_def)
  have 2: "selectedFile upload_ready = Some png_upload" by (simp add: upload_ready_eq)
  have 3: "fetch_data_url env_unconfigured ''AAAA'' = Inr ''AAAA''"
    by (simp add: env_unconfigured_def)
  from unconfigured_fails_locally [OF 1, of upload_ready "''AAAA''"
      "[UploadSubmit, Back, SelectLiveCapture, ProceedToCamera, Capture ''AAAA'']"
      png_upload "''AAAA''"] 2 3
  show ?thesis by simp
qed

subsection \<open>File selection and validation\<close>

text \<open>
  Claim C7. In the upload view with no file selected, \<^verbatim>\<open>handleUploadSubmit\<close> sends no
  request, does not reach \<^verbatim>\<open>setCurrentView('loading')\<close>, leaves the view as it is, and
  the view shows \<^verbatim>\<open>Please select an image file\<close>.
\<close>

theorem submit_without_file:
  assumes "selectedFile s = None" and "currentView s = Upload"
  shows "sent (handleUploadSubmit e s) = []
       \<and> pending (handleUploadSubmit e s) = None
       \<and> final (handleUploadSubmit e s) = s\<lparr>error := ''Please select an image file''\<rparr>
       \<and> currentView (final (handleUploadSubmit e s)) = Upload
       \<and> shown_error (final (handleUploadSubmit e s)) = Some ''Please select an image file''"
  using assms by (simp add: handleUploadSubmit_def shown_error_def)

text \<open>The upload view as it is entered from the method selection.\<close>

theorem submit_without_file_witness:
  "sent (handleUploadSubmit (env_responding ok_response) (handleSelectUpload initial_state)) = []
   \<and> pending (handleUploadSubmit (env_responding ok_response) (handleSelectUpload initial_state)) = None
   \<and> final (handleUploadSubmit (env_responding ok_response) (handleSelectUpload initial_state))
       = (handleSelectUpload initial_state)\<lparr>error := ''Please select an image file''\<rparr>
   \<and> currentView (final (handleUploadSubmit (env_responding ok_response) (handleSelectUpload initial_state)))
       = Upload
   \<and> shown_error (final (handleUploadSubmit (env_responding ok_response) (handleSelectUpload initial_state)))
       = Some ''Please select an image file''"
proof -
  have 1: "selectedFile (handleSelectUpload initial_state) = None"
    by (simp add: handleSelectUpload_def initial_state_def)
  have 2: "currentView (handleSelectUpload initial_state) = Upload"
    by (simp add: handleSelectUpload_def)
  show ?thesis by (rule submit_without_file [OF 1 2])
qed

lemma png_file_is_image: "is_image (png_file blob)"
  by (simp add: is_image_def png_file_def)

lemma step_image_selected: "image_selected s \<Longrightarrow> image_selected (fst (step e ev s))"
  by (cases ev)
    (auto simp: image_selected_def handleSelectLiveCapture_def handleSelectUpload_def
      handleProceedToCamera_def setSelectedFinger_def handleFileSelect_def handleUploadSubmit_def
      handleCapture_def handleRetake_def handleBack_def Let_def settle_frame
      split: option.splits View.splits)

lemma step_sends_images:
  "image_selected s \<Longrightarrow> r \<in> set (snd (step e ev s)) \<Longrightarrow> is_image (original_image r)"
  by (cases ev)
    (auto simp: image_selected_def handleUploadSubmit_def handleCapture_def Let_def
      png_file_is_image dest: sent_post_capture_finger split: option.splits sum.splits)

lemma run_image_selected:
  "image_selected s \<Longrightarrow>
     image_selected (fst (run tr s)) \<and> (\<forall>r\<in>set (snd (run tr s)). is_image (original_image r))"
proof (induction tr arbitrary: s)
  case Nil
  then show ?case by simp
next
  case (Cons x tr)
  have inv: "image_selected (fst (step (fst x) (snd x) s))"
    using Cons.prems by (rule step_image_selected)
  show ?case
    using Cons.IH [OF inv] step_sends_images [OF Cons.prems] by auto
qed

lemma initial_image_selected: "image_selected initial_state"
  by (simp add: image_selected_def initial_state_def)

text \<open>
  Claim C8. Choosing a file \<open>f\<close> whose type does not start with \<^verbatim>\<open>image/\<close> only sets
  the validation error, which the upload view shows; and in no session from the initial
  state is \<open>f\<close> the selected file or the image of a request.
\<close>

theorem non_image_never_stored:
  assumes "\<not> is_image f"
  shows "handleFileSelect (Some (f # fs)) s = s\<lparr>error := ''Please select a valid image file''\<rparr>
       \<and> (currentView s = Upload \<longrightarrow>
            shown_error (handleFileSelect (Some (f # fs)) s)
              = Some ''Please select a valid image file'')
       \<and> selectedFile (fst (run tr initial_state)) \<noteq> Some f
       \<and> (\<forall>r\<in>set (snd (run tr initial_state)). original_image r \<noteq> f)"
proof -
  have 1: "handleFileSelect (Some (f # fs)) s = s\<lparr>error := ''Please select a valid image file''\<rparr>"
    using assms by (simp add: handleFileSelect_def first_file_def)
  have inv: "image_selected (fst (run tr initial_state))"
    and img: "\<forall>r\<in>set (snd (run tr initial_state)). is_image (original_image r)"
    using run_image_selected [OF initial_image_selected, of tr] by simp_all
  have 3: "selectedFile (fst (run tr initial_state)) \<noteq> Some f"
    using inv assms by (auto simp: image_selected_def)
  have 4: "\<forall>r\<in>set (snd (run tr initial_state)). original_image r \<noteq> f"
    using img assms by auto
  show ?thesis using 3 4 by (simp add: 1 shown_error_def)
qed

lemma upload_session_run:
  "run upload_session initial_state =
     (\<lparr>currentView = Upload, selectedFinger = Index, capturedImage = [],
       selectedFile = Some png_upload, result = JNull, error = ''error one, error two''\<rparr>,
      [capture_request example_url Index png_upload])"
  by (simp add: upload_session_def initial_state_def handleSelectUpload_def handleFileSelect_def
      first_file_def is_image_def png_upload_def text_upload_def handleUploadSubmit_def Let_def
      post_capture_def env_responding_def example_url_def ok_def field_error_response_def
      remote_error_def field_errors_def errorMessages_def settle_def catch_message_def
      includes_fetch_def sublist_Cons_right)

text \<open>The session \<open>upload_session\<close>, in which \<open>text_upload\<close> is chosen after \<open>png_upload\<close>.\<close>

theorem non_image_never_stored_witness:
  "handleFileSelect (Some [text_upload]) upload_ready
     = upload_ready\<lparr>error := ''Please select a valid image file''\<rparr>
   \<and> shown_error (handleFileSelect (Some [text_upload]) upload_ready)
       = Some ''Please select a valid image file''
   \<and> selectedFile (fst (run upload_session initial_state)) = Some png_upload
   \<and> selectedFile (fst (run upload_session initial_state)) \<noteq> Some text_upload
   \<and> snd (run upload_session initial_state) = [capture_request example_url Index png_upload]
   \<and> original_image (capture_request example_url Index png_upload) \<noteq> text_upload"
proof -
  have 1: "\<not> is_image text_upload" by (simp add: is_image_def text_upload_def)
  have 2: "currentView upload_ready = Upload" by (simp add: upload_ready_eq)
  have 3: "capture_request example_url Index png_upload \<in> set (snd (run upload_session initial_state))"
    by (simp add: upload_session_run)
  have 4: "selectedFile (fst (run upload_session initial_state)) = Some png_upload"
    and 5: "snd (run upload_session initial_state) = [capture_request example_url Index png_upload]"
    by (simp_all add: upload_session_run)
  note th = non_image_never_stored [OF 1, of "[]" upload_ready upload_session]
  from th 2 3 4 5 show ?thesis by blast
qed

text \<open>
  Claim C10. When the file dialog yields no file, or a file that is not an image, only
  the error changes: the selected file stays, the upload view shows the validation error,
  and a submit sends what it would have sent before, which with a file \<open>g\<close> selected and
  the base URL set is the request for \<open>g\<close>.
\<close>

theorem rejected_selection_keeps_file:
  assumes "first_file files = None \<or> (\<exists>f. first_file files = Some f \<and> \<not> is_image f)"
  shows "handleFileSelect files s = s\<lparr>error := ''Please select a valid image file''\<rparr>
       \<and> selectedFile (handleFileSelect files s) = selectedFile s
       \<and> (currentView s = Upload \<longrightarrow>
            shown_error (handleFileSelect files s) = Some ''Please select a valid image file'')
       \<and> sent (handleUploadSubmit e (handleFileSelect files s)) = sent (handleUploadSubmit e s)
       \<and> (selectedFile s = Some g \<and> baseUrl e = Some b \<and> b \<noteq> '''' \<longrightarrow>
            sent (handleUploadSubmit e (handleFileSelect files s))
              = [capture_request b (selectedFinger s) g])"
proof -
  have eq: "handleFileSelect files s = s\<lparr>error := ''Please select a valid image file''\<rparr>"
    using assms by (auto simp: handleFileSelect_def)
  have same: "sent (handleUploadSubmit e (s\<lparr>error := ''Please select a valid image file''\<rparr>))
                = sent (handleUploadSubmit e s)"
    by (simp add: handleUploadSubmit_def Let_def split: option.splits)
  show ?thesis
    by (simp add: eq same shown_error_def sent_handleUploadSubmit)
qed

text \<open>\<open>text_upload\<close> chosen while \<open>png_upload\<close> is selected.\<close>

theorem rejected_selection_keeps_file_witness:
  "handleFileSelect (Some [text_upload]) upload_ready
     = upload_ready\<lparr>error := ''Please select a valid image file''\<rparr>
   \<and> selectedFile (handleFileSelect (Some [text_upload]) upload_ready) = Some png_upload
   \<and> shown_error (handleFileSelect (Some [text_upload]) upload_ready)
       = Some ''Please select a valid image file''
   \<and> sent (handleUploadSubmit (env_responding ok_response)
             (handleFileSelect (Some [text_upload]) upload_ready))
       = [capture_request example_url Index png_upload]"
proof -
  have 1: "first_file (Some [text_upload]) = None
           \<or> (\<exists>f. first_file (Some [text_upload]) = Some f \<and> \<not> is_image f)"
    by (simp add: first_file_def is_image_def text_upload_def)
  have 2: "currentView upload_ready = Upload" by (simp add: upload_ready_eq)
  have 3: "selectedFile upload_ready = Some png_upload
           \<and> baseUrl (env_responding ok_response) = Some example_url \<and> example_url \<noteq> []"
    by (simp add: upload_ready_eq env_responding_def example_url_def)
  have 4: "selectedFinger upload_ready = Index" by (simp add: upload_ready_eq)
  note th = rejected_selection_keeps_file [OF 1, of upload_ready "env_responding ok_response"
      png_upload example_url]
  from th 2 3 4 show ?thesis by metis
qed

section \<open>Properties of the camera acquisition component\<close>

lemma applySettings_manual:
  "call \<in> set (applySettings accepts c) \<Longrightarrow> is_manual_call call \<Longrightarrow>
     call_settings call = manual_settings c"
  by (auto simp: applySettings_def split: option.splits if_splits)

lemma applySettings_auto:
  "\<not> isMacroMode c \<Longrightarrow> call \<in> set (applySettings accepts c) \<Longrightarrow> \<not> is_manual_call call"
  by (auto simp: applySettings_def split: option.splits)

lemma toggle_into_macro:
  "\<not> isMacroMode c \<Longrightarrow>
     fst (toggleMacroMode accepts c)
       = c\<lparr>isMacroMode := True, exposureTime := 2.5, iso := 400, exposureCompensation := 0\<rparr>
   \<and> snd (toggleMacroMode accepts c) = applySettings accepts c"
  by (simp add: toggleMacroMode_def Let_def)

text \<open>
  Claim C9. A click on the toggle in auto mode switches to macro mode with
  \<^verbatim>\<open>exposureTime\<close> 2.5, \<^verbatim>\<open>iso\<close> 400 and \<^verbatim>\<open>exposureCompensation\<close> 0, and every manual
  constraint set that the click applies to the track or to the ImageCapture object carries
  these three values; with permission and a track they are applied. (The handler's own
  \<^verbatim>\<open>applySettings\<close> call still sees auto mode and applies the continuous constraints;
  the manual ones are applied by the effects of the next render.)
\<close>

theorem macro_toggle_resets_before_apply:
  assumes "\<not> isMacroMode c"
  shows "isMacroMode (fst (click_toggleMacroMode accepts c))
       \<and> exposureTime (fst (click_toggleMacroMode accepts c)) = 2.5
       \<and> iso (fst (click_toggleMacroMode accepts c)) = 400
       \<and> exposureCompensation (fst (click_toggleMacroMode accepts c)) = 0
       \<and> (\<forall>call\<in>set (snd (click_toggleMacroMode accepts c)).
            is_manual_call call \<longrightarrow>
              call_settings call = Exposure ''manual'' (Some 2.5) 0 (Some 400))
       \<and> (hasPermission c \<and> trackRef c = Some t \<longrightarrow>
            ApplyConstraints t (Exposure ''manual'' (Some 2.5) 0 (Some 400))
              \<in> set (snd (click_toggleMacroMode accepts c)))"
proof -
  let ?c' = "c\<lparr>isMacroMode := True, exposureTime := 2.5, iso := 400, exposureCompensation := 0\<rparr>"
  have st: "fst (toggleMacroMode accepts c) = ?c'"
    and own: "snd (toggleMacroMode accepts c) = applySettings accepts c"
    using toggle_into_macro [OF assms] by simp_all
  have ms: "manual_settings ?c' = Exposure ''manual'' (Some 2.5) 0 (Some 400)"
    by (simp add: manual_settings_def)
  have calls: "set (snd (click_toggleMacroMode accepts c))
                 \<subseteq> set (applySettings accepts c) \<union> set (applySettings accepts ?c')"
    by (auto simp: click_toggleMacroMode_def st own effects_def split: if_splits)
  have manual: "call_settings call = Exposure ''manual'' (Some 2.5) 0 (Some 400)"
    if "call \<in> set (snd (click_toggleMacroMode accepts c))" and "is_manual_call call" for call
  proof -
    from that(1) calls
    consider "call \<in> set (applySettings accepts c)" | "call \<in> set (applySettings accepts ?c')"
      by auto
    then show ?thesis
    proof cases
      case 1
      with applySettings_auto [OF assms] that(2) show ?thesis by blast
    next
      case 2
      from applySettings_manual [OF 2 that(2)] ms show ?thesis by simp
    qed
  qed
  have applied: "ApplyConstraints t (Exposure ''manual'' (Some 2.5) 0 (Some 400))
                   \<in> set (snd (click_toggleMacroMode accepts c))"
    if "hasPermission c" and "trackRef c = Some t"
    using that assms
    by (simp add: click_toggleMacroMode_def st own effects_def applySettings_def
        manual_settings_def)
  show ?thesis
    using manual applied by (simp add: click_toggleMacroMode_def st)
qed

text \<open>The component in auto mode with the sliders at 7 and 800.\<close>

theorem macro_toggle_resets_before_apply_witness:
  "fst (click_toggleMacroMode (\<lambda>a. True) camera_auto)
     = camera_auto\<lparr>isMacroMode := True, exposureTime := 2.5, iso := 400,
                   exposureCompensation := 0\<rparr>
   \<and> ApplyConstraints 1 (Exposure ''manual'' (Some 2.5) 0 (Some 400))
       \<in> set (snd (click_toggleMacroMode (\<lambda>a. True) camera_auto))
   \<and> call_settings (ApplyConstraints 1 (Exposure ''manual'' (Some 2.5) 0 (Some 400)))
       = Exposure ''manual'' (Some 2.5) 0 (Some 400)"
proof -
  have 1: "\<not> isMacroMode camera_auto" by (simp add: camera_auto_def)
  have 2: "hasPermission camera_auto \<and> trackRef camera_auto = Some 1"
    by (simp add: camera_auto_def)
  have 3: "is_manual_call (ApplyConstraints 1 (Exposure ''manual'' (Some 2.5) 0 (Some 400)))"
    by simp
  have 4: "fst (click_toggleMacroMode (\<lambda>a. True) camera_auto)
     = camera_auto\<lparr>isMacroMode := True, exposureTime := 2.5, iso := 400,
                   exposureCompensation := 0\<rparr>"
    by (simp add: click_toggleMacroMode_def toggleMacroMode_def Let_def camera_auto_def)
  note th = macro_toggle_resets_before_apply [OF 1, of "\<lambda>a. True" 1]
  from th 2 3 4 show ?thesis by blast
qed

end
